theory Spec2Isabelle
  imports Main "HOL-Library.Sublist"
begin

section \<open>JavaScript values\<close>

text \<open>
  The request body and every field read from it are parsed JSON, seen by the handler as
  JavaScript values. \<open>JUndefined\<close> is the value of a property that is not there (and of
  \<open>req.body\<close> when the request has none). Numbers are the integers; the handler only tests
  a number for being zero. An object is the list of its properties; a parsed object has each
  key once.
\<close>

datatype jsval =
    JUndefined
  | JNull
  | JBool bool
  | JNum int
  | JStr string
  | JArr "jsval list"
  | JObj "(string \<times> jsval) list"

text \<open>What \<open>!v\<close> tests: \<open>undefined\<close>, \<open>null\<close>, \<open>false\<close>, \<open>0\<close> and \<open>""\<close> are falsy,
  everything else (every array and object too, also the empty ones) is truthy.\<close>

fun truthy :: "jsval \<Rightarrow> bool" where
  "truthy JUndefined = False"
| "truthy JNull = False"
| "truthy (JBool b) = b"
| "truthy (JNum n) = (n \<noteq> 0)"
| "truthy (JStr s) = (s \<noteq> [])"
| "truthy (JArr xs) = True"
| "truthy (JObj kvs) = True"

text \<open>\<open>a || b\<close>: the left operand when it is truthy, the right one otherwise.\<close>

definition js_or :: "jsval \<Rightarrow> jsval \<Rightarrow> jsval" where
  "js_or a b = (if truthy a then a else b)"

text \<open>
  \<open>v.k\<close> for the column names the handler reads: the property of an object, \<open>undefined\<close>
  when the object has none of that name and on every other truthy value (a string, a number,
  an array carry none of these names). On \<open>undefined\<close> and \<open>null\<close> JavaScript throws
  instead; the handler reads a property of the body only behind \<open>!event ||\<close>, so never
  there.
\<close>

fun get_prop :: "jsval \<Rightarrow> string \<Rightarrow> jsval" where
  "get_prop (JObj kvs) k = (case map_of kvs k of None \<Rightarrow> JUndefined | Some v \<Rightarrow> v)"
| "get_prop v k = JUndefined"

section \<open>The durable store: table \<open>conversation_events\<close>\<close>

text \<open>
  A row is the object handed to \<open>insert\<close>; the table is the list of rows accepted so far.
  The constraints are those of the \<open>CREATE TABLE\<close> statement: the primary key on
  \<open>event_id\<close>, \<open>NOT NULL\<close> on four columns, the two \<open>CHECK\<close>s. A property that is
  \<open>undefined\<close> is dropped when the row is serialised, and its column is taken as \<open>NULL\<close>;
  the handler never passes an undefined or null \<open>timestamp\<close>, so the default \<open>NOW()\<close> of
  that column plays no part. Every other reason the database or the client may report (no
  connection, a value that does not cast to its column type, permissions) is the parameter
  \<open>fault\<close>. An error carries a message, which is all the handler reads of it; the texts
  below follow PostgreSQL's.

  \<open>event_id\<close> is a \<open>TEXT\<close> column, and the primary key compares what the column holds:
  a string as it is, any other value as the text the database casts it to (the number 7
  and the string \<open>7\<close> are the same key). That cast is the database's and is the
  parameter \<open>cast\<close>.
\<close>

datatype pg_error =
    Fault string
  | NotNullViolation string
  | CheckViolation string
  | UniqueViolation

fun error_message :: "pg_error \<Rightarrow> string" where
  "error_message (Fault m) = m"
| "error_message (NotNullViolation c) =
     ''null value in column '' @ c @ '' violates not-null constraint''"
| "error_message (CheckViolation c) =
     ''new row violates check constraint conversation_events_'' @ c @ ''_check''"
| "error_message UniqueViolation =
     ''duplicate key value violates unique constraint conversation_events_pkey''"

type_synonym table = "jsval list"

definition is_null :: "jsval \<Rightarrow> bool" where
  "is_null v = (v = JNull \<or> v = JUndefined)"

fun as_text :: "(jsval \<Rightarrow> string) \<Rightarrow> jsval \<Rightarrow> string" where
  "as_text cast (JStr s) = s"
| "as_text cast v = cast v"

text \<open>\<open>CHECK (c IN (...))\<close> passes on \<open>NULL\<close> and on a listed text.\<close>

definition check_in :: "string list \<Rightarrow> jsval \<Rightarrow> bool" where
  "check_in allowed v = (is_null v \<or> (\<exists>s \<in> set allowed. v = JStr s))"

definition not_null_columns :: "string list" where
  "not_null_columns = [''event_id'', ''conversation_id'', ''merchant_id'', ''timestamp'']"

definition directions :: "string list" where
  "directions = [''inbound'', ''outbound'']"

definition sources :: "string list" where
  "sources = [''customer'', ''bot'', ''human_agent'', ''system'']"

definition insert_row ::
  "string option \<Rightarrow> (jsval \<Rightarrow> string) \<Rightarrow> table \<Rightarrow> jsval \<Rightarrow> pg_error + table" where
  "insert_row fault cast t row =
     (case fault of
        Some m \<Rightarrow> Inl (Fault m)
      | None \<Rightarrow>
          (case filter (\<lambda>c. is_null (get_prop row c)) not_null_columns of
             c # cs \<Rightarrow> Inl (NotNullViolation c)
           | [] \<Rightarrow>
               if \<not> check_in directions (get_prop row ''direction'')
                 then Inl (CheckViolation ''direction'')
               else if \<not> check_in sources (get_prop row ''source'')
                 then Inl (CheckViolation ''source'')
               else if \<exists>old \<in> set t. as_text cast (get_prop old ''event_id'')
                                         = as_text cast (get_prop row ''event_id'')
                 then Inl UniqueViolation
               else Inr (t @ [row])))"

section \<open>The ingestion endpoint\<close>

record request =
  http_method :: "string option"
  authorization :: "string option"
  body :: jsval

record response =
  status :: nat
  json :: jsval

text \<open>
  Of a request the handler reads the verb (\<open>req.method\<close>, here \<open>http_method\<close>), the
  Authorization header (absent or a string)
  and \<open>req.body\<close>, the parsed body. What it reads from its surroundings: the secret of the
  environment (absent when the variable is not set), the instant
  \<open>new Date().toISOString()\<close> gives, and of the store the fault it will report, if any,
  and its cast to text.
\<close>

record env =
  LOGGER_API_KEY :: "string option"
  now :: string
  store_fault :: "string option"
  text_cast :: "jsval \<Rightarrow> string"

text \<open>
  The state a request can change: the table, the list of rows passed to \<open>insert\<close> (one
  entry per call, so a retry would show), and what went to \<open>console.error\<close>.
\<close>

record server =
  conversation_events :: table
  insert_calls :: "jsval list"
  console_error :: "pg_error list"

text \<open>The template literal \<open>`Bearer ${LOGGER_API_KEY}`\<close>; an unset variable prints as
  \<open>undefined\<close>.\<close>

definition bearer :: "string option \<Rightarrow> string" where
  "bearer key = ''Bearer '' @ (case key of None \<Rightarrow> ''undefined'' | Some k \<Rightarrow> k)"

text \<open>The object literal passed to \<open>insert\<close>.\<close>

definition event_row :: "string \<Rightarrow> jsval \<Rightarrow> jsval" where
  "event_row now_iso event = JObj [
     (''event_id'', get_prop event ''event_id''),
     (''conversation_id'', get_prop event ''conversation_id''),
     (''merchant_id'', get_prop event ''merchant_id''),
     (''direction'', js_or (get_prop event ''direction'') JNull),
     (''source'', js_or (get_prop event ''source'') JNull),
     (''message'', js_or (get_prop event ''message'') JNull),
     (''timestamp'', js_or (get_prop event ''timestamp'') (JStr now_iso)),
     (''intention'', js_or (get_prop event ''intention'') JNull),
     (''tagging'', js_or (get_prop event ''tagging'') JNull),
     (''language'', js_or (get_prop event ''language'') JNull),
     (''contextual_summary'', js_or (get_prop event ''contextual_summary'') JNull),
     (''working_context'', js_or (get_prop event ''working_context'') JNull),
     (''memory_basket'', js_or (get_prop event ''memory_basket'') JNull),
     (''retrieved_docs'', js_or (get_prop event ''retrieved_docs'') JNull),
     (''filter_response'', js_or (get_prop event ''filter_response'') JNull),
     (''model_calls'', js_or (get_prop event ''model_calls'') JNull),
     (''response_time_ms'', js_or (get_prop event ''response_time_ms'') JNull),
     (''eval'', js_or (get_prop event ''eval'') JNull),
     (''metadata'', js_or (get_prop event ''metadata'') JNull)]"

definition reply :: "nat \<Rightarrow> jsval \<Rightarrow> response" where
  "reply code payload = \<lparr>status = code, json = payload\<rparr>"

definition handler :: "env \<Rightarrow> request \<Rightarrow> server \<Rightarrow> response \<times> server" where
  "handler e req s =
     (if http_method req \<noteq> Some ''POST''
        then (reply 405 (JObj [(''error'', JStr ''Method not allowed'')]), s)
      else
        let authHeader = authorization req in
        if (authHeader = None \<or> authHeader = Some []) \<or> authHeader \<noteq> Some (bearer (LOGGER_API_KEY e))
          then (reply 401 (JObj [(''error'', JStr ''Unauthorized'')]), s)
        else
          let event = body req in
          if \<not> truthy event \<or> \<not> truthy (get_prop event ''event_id'')
               \<or> \<not> truthy (get_prop event ''conversation_id'')
               \<or> \<not> truthy (get_prop event ''merchant_id'')
            then (reply 400 (JObj [(''error'',
                    JStr ''Missing required fields: event_id, conversation_id, merchant_id'')]), s)
          else
            let row = event_row (now e) event;
                s1 = s\<lparr>insert_calls := insert_calls s @ [row]\<rparr>
            in case insert_row (store_fault e) (text_cast e) (conversation_events s) row of
                 Inl error \<Rightarrow>
                   (reply 500 (JObj [(''error'', JStr (error_message error))]),
                    s1\<lparr>console_error := console_error s1 @ [error]\<rparr>)
               | Inr t' \<Rightarrow>
                   (reply 200 (JObj [(''ok'', JBool True)]), s1\<lparr>conversation_events := t'\<rparr>))"

text \<open>The health probe: the second handler of the repository.\<close>

definition handler_health :: "request \<Rightarrow> server \<Rightarrow> response \<times> server" where
  "handler_health req s =
     (reply 200 (JObj [
        (''service'', JStr ''AeroChat Conversation Logger''),
        (''status'', JStr ''running''),
        (''endpoint'', JStr ''POST /api/log-event'')]), s)"

text \<open>The column names, as the validation and the row literal group them: the three
  identifiers the handler insists on, and the fields it passes on with \<open>|| null\<close>
  (\<open>timestamp\<close>, which falls back to the clock instead, is apart).\<close>

definition required_fields :: "string list" where
  "required_fields = [''event_id'', ''conversation_id'', ''merchant_id'']"

definition optional_fields :: "string list" where
  "optional_fields = [''direction'', ''source'', ''message'', ''intention'', ''tagging'',
     ''language'', ''contextual_summary'', ''working_context'', ''memory_basket'',
     ''retrieved_docs'', ''filter_response'', ''model_calls'', ''response_time_ms'',
     ''eval'', ''metadata'']"

section \<open>The dispatcher\<close>

text \<open>
  The Python module of the task brief. Exceptions are values; \<open>isinstance_Exception\<close>
  tells the classes \<open>except Exception\<close> catches from those deriving from
  \<open>BaseException\<close> only.
\<close>

datatype py_exception =
    TimeoutException
  | ConnectError
  | TypeError
  | RuntimeError
  | OtherException string
  | CancelledError
  | KeyboardInterrupt

fun isinstance_TimeoutException :: "py_exception \<Rightarrow> bool" where
  "isinstance_TimeoutException TimeoutException = True"
| "isinstance_TimeoutException ex = False"

fun isinstance_Exception :: "py_exception \<Rightarrow> bool" where
  "isinstance_Exception CancelledError = False"
| "isinstance_Exception KeyboardInterrupt = False"
| "isinstance_Exception ex = True"

text \<open>What awaiting \<open>client.post\<close> inside the \<open>async with\<close> block comes to: a response
  with its status code, or an exception (a timeout after the 5 seconds, a refused
  connection, a \<open>TypeError\<close> from serialising the event, ...).\<close>

datatype post_result = Response nat | Raises py_exception

datatype warning = NotConfigured | ReceivedStatus nat | TimedOut | Failed py_exception

text \<open>What the module does to the world: the POST (URL, Authorization header, JSON body,
  and how it ended) and the lines of \<open>logger.warning\<close>.\<close>

datatype effect = HttpPost string string jsval post_result | LogWarning warning

record dispatcher_env =
  LOGGER_ENDPOINT :: "string option"
  LOGGER_API_KEY_py :: "string option"

text \<open>Python's \<open>not x\<close> on the result of \<open>os.getenv\<close>: true on \<open>None\<close> and on the empty
  string.\<close>

fun py_not :: "string option \<Rightarrow> bool" where
  "py_not None = True"
| "py_not (Some v) = (v = [])"

text \<open>The coroutine \<open>_log_event\<close>: its effects in order, and the exception it ends with,
  if any.\<close>

definition log_event :: "dispatcher_env \<Rightarrow> post_result \<Rightarrow> jsval \<Rightarrow> effect list \<times> py_exception option" where
  "log_event cfg net event_data =
     (if py_not (LOGGER_ENDPOINT cfg) \<or> py_not (LOGGER_API_KEY_py cfg)
        then ([LogWarning NotConfigured], None)
      else
        case (LOGGER_ENDPOINT cfg, LOGGER_API_KEY_py cfg) of
          (Some url, Some key) \<Rightarrow>
            (let call = HttpPost url (''Bearer '' @ key) event_data net in
             case net of
               Response status_code \<Rightarrow>
                 (if status_code \<noteq> 200
                    then ([call, LogWarning (ReceivedStatus status_code)], None)
                  else ([call], None))
             | Raises ex \<Rightarrow>
                 (if isinstance_TimeoutException ex then ([call, LogWarning TimedOut], None)
                  else if isinstance_Exception ex then ([call, LogWarning (Failed ex)], None)
                  else ([call], Some ex)))
        | _ \<Rightarrow> ([LogWarning NotConfigured], None))"

text \<open>\<open>asyncio.get_running_loop()\<close> returns the loop or raises \<open>RuntimeError\<close>.\<close>

datatype loop_state = Running | NoLoop

text \<open>
  A call of \<open>fire_log\<close>: the effects that have happened when it returns, those of the task
  it left on the loop (they happen once the caller gives control back to the loop), and
  the exception the caller sees, if any. With a running loop \<open>create_task\<close> only schedules
  the coroutine, and an exception of the task stays in the task. With none,
  \<open>asyncio.run\<close> runs the coroutine to its end before it returns, inside
  \<open>try ... except Exception: pass\<close>.
\<close>

record dispatch =
  before_return :: "effect list"
  detached :: "effect list"
  raised :: "py_exception option"

definition fire_log :: "dispatcher_env \<Rightarrow> loop_state \<Rightarrow> post_result \<Rightarrow> jsval \<Rightarrow> dispatch" where
  "fire_log cfg loop net event_data =
     (case loop of
        Running \<Rightarrow>
          \<lparr>before_return = [], detached = fst (log_event cfg net event_data), raised = None\<rparr>
      | NoLoop \<Rightarrow>
          (case log_event cfg net event_data of
             (effects, None) \<Rightarrow> \<lparr>before_return = effects, detached = [], raised = None\<rparr>
           | (effects, Some ex) \<Rightarrow>
               \<lparr>before_return = effects, detached = [],
                raised = (if isinstance_Exception ex then None else Some ex)\<rparr>))"

text \<open>The delivery failures: a non-success status, and every exception of class
  \<open>Exception\<close> (among them the timeout, the connection failure and the serialisation
  error).\<close>

fun delivery_failure :: "post_result \<Rightarrow> bool" where
  "delivery_failure (Response status_code) = (status_code \<noteq> 200)"
| "delivery_failure (Raises ex) = isinstance_Exception ex"

fun is_post :: "effect \<Rightarrow> bool" where
  "is_post (HttpPost url auth payload res) = True"
| "is_post (LogWarning w) = False"

fun is_warning :: "effect \<Rightarrow> bool" where
  "is_warning (LogWarning w) = True"
| "is_warning (HttpPost url auth payload res) = False"

section \<open>Values used in the examples\<close>

text \<open>A cast for the examples: a number in decimal, a truth value by its name. No example
  has an array or an object for an identifier; they get a fixed text here.\<close>

fun decimal :: "nat \<Rightarrow> string" where
  "decimal n =
     (if n < 10 then [''0123456789'' ! n] else decimal (n div 10) @ [''0123456789'' ! (n mod 10)])"

fun cast0 :: "jsval \<Rightarrow> string" where
  "cast0 (JNum n) = (if n < 0 then ''-'' @ decimal (nat (- n)) else decimal (nat n))"
| "cast0 (JBool b) = (if b then ''true'' else ''false'')"
| "cast0 (JStr s) = s"
| "cast0 v = ''...''"

definition env0 :: env where
  "env0 = \<lparr>LOGGER_API_KEY = Some ''s3cret'', now = ''2026-02-25T12:00:00.000Z'',
            store_fault = None, text_cast = cast0\<rparr>"

definition server0 :: server where
  "server0 = \<lparr>conversation_events = [], insert_calls = [], console_error = []\<rparr>"

definition event_m1 :: jsval where
  "event_m1 = JObj [
     (''event_id'', JStr ''m1''),
     (''conversation_id'', JStr ''c1''),
     (''merchant_id'', JStr ''merch1''),
     (''direction'', JStr ''inbound''),
     (''source'', JStr ''customer''),
     (''language'', JStr ''es-MX'')]"

definition post_m1 :: request where
  "post_m1 = \<lparr>http_method = Some ''POST'', authorization = Some ''Bearer s3cret'', body = event_m1\<rparr>"

definition url0 :: string where
  "url0 = ''https://logger.example/api/log-event''"

definition cfg0 :: dispatcher_env where
  "cfg0 = \<lparr>LOGGER_ENDPOINT = Some url0, LOGGER_API_KEY_py = Some ''s3cret''\<rparr>"

definition get_m1 :: request where
  "get_m1 = \<lparr>http_method = Some ''GET'', authorization = Some ''Bearer s3cret'', body = event_m1\<rparr>"

definition get_wrong :: request where
  "get_wrong = \<lparr>http_method = Some ''GET'', authorization = Some ''Bearer wrong'', body = event_m1\<rparr>"

definition post_wrong :: request where
  "post_wrong = \<lparr>http_method = Some ''POST'', authorization = Some ''Bearer wrong'', body = event_m1\<rparr>"

definition post_wrong_empty :: request where
  "post_wrong_empty = \<lparr>http_method = Some ''POST'', authorization = Some ''Bearer wrong'', body = JObj []\<rparr>"

definition delete_wrong_empty :: request where
  "delete_wrong_empty = \<lparr>http_method = Some ''DELETE'', authorization = None, body = JUndefined\<rparr>"

definition post_no_merchant :: request where
  "post_no_merchant = \<lparr>http_method = Some ''POST'', authorization = Some ''Bearer s3cret'',
     body = JObj [(''event_id'', JStr ''m1''), (''conversation_id'', JStr ''c1''), (''merchant_id'', JStr [])]\<rparr>"

definition event_zero_ms :: jsval where
  "event_zero_ms = JObj [
     (''event_id'', JStr ''m2''),
     (''conversation_id'', JStr ''c1''),
     (''merchant_id'', JStr ''merch1''),
     (''direction'', JStr ''outbound''),
     (''source'', JStr ''bot''),
     (''response_time_ms'', JNum 0)]"

definition post_zero_ms :: request where
  "post_zero_ms = \<lparr>http_method = Some ''POST'', authorization = Some ''Bearer s3cret'', body = event_zero_ms\<rparr>"

definition server_m1 :: server where
  "server_m1 = \<lparr>conversation_events = [event_row ''2026-02-25T11:59:00.000Z'' event_m1],
                 insert_calls = [event_row ''2026-02-25T11:59:00.000Z'' event_m1],
                 console_error = []\<rparr>"

text \<open>The number 7 as \<open>event_id\<close>, and a table that holds the string \<open>7\<close>.\<close>

definition event_7 :: jsval where
  "event_7 = JObj [(''event_id'', JNum 7), (''conversation_id'', JStr ''c1''),
                   (''merchant_id'', JStr ''merch1'')]"

definition post_7 :: request where
  "post_7 = \<lparr>http_method = Some ''POST'', authorization = Some ''Bearer s3cret'', body = event_7\<rparr>"

definition server_7 :: server where
  "server_7 = \<lparr>conversation_events =
                  [event_row ''2026-02-25T11:59:00.000Z''
                     (JObj [(''event_id'', JStr ''7''), (''conversation_id'', JStr ''c1''),
                            (''merchant_id'', JStr ''merch1'')])],
                insert_calls = [], console_error = []\<rparr>"

definition station_calls :: "jsval list" where
  "station_calls = [
     JObj [(''step'', JStr ''preprocessing_agent''), (''tokens_input'', JNum 180)],
     JObj [(''step'', JStr ''intention_agent''), (''tokens_input'', JNum 245)],
     JObj [(''step'', JStr ''a_station_added_later''), (''tokens_input'', JNum 7)]]"

definition post_calls :: request where
  "post_calls = \<lparr>http_method = Some ''POST'', authorization = Some ''Bearer s3cret'',
     body = JObj [(''event_id'', JStr ''m3''), (''conversation_id'', JStr ''c1''),
                  (''merchant_id'', JStr ''merch1''), (''model_calls'', JArr station_calls)]\<rparr>"

definition cfg_unset :: dispatcher_env where
  "cfg_unset = \<lparr>LOGGER_ENDPOINT = Some url0, LOGGER_API_KEY_py = None\<rparr>"

text \<open>The message of the 400 response.\<close>

definition missing_fields_message :: string where
  "missing_fields_message = ''Missing required fields: event_id, conversation_id, merchant_id''"

section \<open>Auxiliary facts\<close>

subsection \<open>Rows and validation\<close>

lemma truthy_not_null: "truthy v \<Longrightarrow> \<not> is_null v"
  by (auto simp: is_null_def)

lemma row_required: "\<forall>f \<in> set required_fields. get_prop (event_row n ev) f = get_prop ev f"
  by (simp add: required_fields_def event_row_def)

lemma row_optional: "\<forall>f \<in> set optional_fields. get_prop (event_row n ev) f = js_or (get_prop ev f) JNull"
  by (simp add: optional_fields_def event_row_def)

lemma row_timestamp: "get_prop (event_row n ev) ''timestamp'' = js_or (get_prop ev ''timestamp'') (JStr n)"
  by (simp add: event_row_def)

lemma js_or_not_null: "\<not> is_null b \<Longrightarrow> \<not> is_null (js_or a b)"
  by (simp add: js_or_def truthy_not_null)

lemma row_not_null:
  assumes "\<forall>f \<in> set required_fields. truthy (get_prop ev f)"
  shows "filter (\<lambda>c. is_null (get_prop (event_row n ev) c)) not_null_columns = []"
proof -
  have req: "\<forall>f \<in> set required_fields. \<not> is_null (get_prop (event_row n ev) f)"
    using assms row_required [of n ev] by (simp add: truthy_not_null)
  have ts: "\<not> is_null (get_prop (event_row n ev) ''timestamp'')"
    unfolding row_timestamp by (rule js_or_not_null) (simp add: is_null_def)
  from req ts show ?thesis
    by (simp add: required_fields_def not_null_columns_def)
qed


lemma bearer_nonempty: "bearer key \<noteq> []"
  by (simp add: bearer_def)

lemma required_truthy_body:
  assumes "\<forall>f \<in> set required_fields. truthy (get_prop ev f)"
  shows "truthy ev"
proof -
  from assms have "truthy (get_prop ev ''event_id'')"
    by (simp add: required_fields_def)
  then show ?thesis by (cases ev) simp_all
qed

lemma falsy_cases:
  "(\<not> truthy v) = (v = JUndefined \<or> v = JNull \<or> v = JBool False \<or> v = JNum 0 \<or> v = JStr [])"
  by (cases v) simp_all

lemma handler_not_post:
  "http_method req \<noteq> Some ''POST'' \<Longrightarrow>
   handler e req s = (reply 405 (JObj [(''error'', JStr ''Method not allowed'')]), s)"
  by (simp add: handler_def)

lemma handler_unauthorized:
  assumes "http_method req = Some ''POST''"
      and "authorization req \<noteq> Some (bearer (LOGGER_API_KEY e))"
  shows "handler e req s = (reply 401 (JObj [(''error'', JStr ''Unauthorized'')]), s)"
  using assms by (simp add: handler_def Let_def)

lemma handler_invalid:
  assumes "http_method req = Some ''POST''"
      and "authorization req = Some (bearer (LOGGER_API_KEY e))"
      and "\<not> truthy (body req) \<or> (\<exists>f \<in> set required_fields. \<not> truthy (get_prop (body req) f))"
  shows "handler e req s = (reply 400 (JObj [(''error'',
           JStr ''Missing required fields: event_id, conversation_id, merchant_id'')]), s)"
proof -
  from assms(3) have "\<not> truthy (body req) \<or> \<not> truthy (get_prop (body req) ''event_id'')
      \<or> \<not> truthy (get_prop (body req) ''conversation_id'')
      \<or> \<not> truthy (get_prop (body req) ''merchant_id'')"
    by (simp add: required_fields_def)
  with assms(1,2) show ?thesis
    by (simp add: handler_def Let_def bearer_nonempty)
qed

lemma handler_insert:
  assumes "http_method req = Some ''POST''"
      and "authorization req = Some (bearer (LOGGER_API_KEY e))"
      and "\<forall>f \<in> set required_fields. truthy (get_prop (body req) f)"
  shows "handler e req s =
     (case insert_row (store_fault e) (text_cast e) (conversation_events s) (event_row (now e) (body req)) of
        Inl err \<Rightarrow>
          (reply 500 (JObj [(''error'', JStr (error_message err))]),
           s\<lparr>insert_calls := insert_calls s @ [event_row (now e) (body req)],
              console_error := console_error s @ [err]\<rparr>)
      | Inr t' \<Rightarrow>
          (reply 200 (JObj [(''ok'', JBool True)]),
           s\<lparr>insert_calls := insert_calls s @ [event_row (now e) (body req)],
              conversation_events := t'\<rparr>))"
proof -
  have b: "truthy (body req)"
    using assms(3) by (rule required_truthy_body)
  have ids: "truthy (get_prop (body req) ''event_id'')"
       "truthy (get_prop (body req) ''conversation_id'')"
       "truthy (get_prop (body req) ''merchant_id'')"
    using assms(3) by (simp_all add: required_fields_def)
  show ?thesis
    using assms(1,2) b ids
    by (simp add: handler_def Let_def bearer_nonempty split: sum.splits)
qed


subsection \<open>The store\<close>

lemma insert_row_appends: "insert_row fault cast t row = Inr t' \<Longrightarrow> t' = t @ [row]"
  by (auto simp: insert_row_def split: option.splits list.splits if_splits)

lemma insert_row_duplicate:
  assumes "\<exists>old \<in> set t. as_text cast (get_prop old ''event_id'')
                            = as_text cast (get_prop row ''event_id'')"
  shows "\<exists>err. insert_row fault cast t row = Inl err"
  using assms by (auto simp: insert_row_def split: option.splits list.splits)

lemma insert_row_accepts:
  assumes "filter (\<lambda>c. is_null (get_prop row c)) not_null_columns = []"
      and "check_in directions (get_prop row ''direction'')"
      and "check_in sources (get_prop row ''source'')"
      and "\<forall>old \<in> set t. as_text cast (get_prop old ''event_id'')
                            \<noteq> as_text cast (get_prop row ''event_id'')"
  shows "insert_row None cast t row = Inr (t @ [row])"
  using assms by (simp add: insert_row_def)

lemma check_in_js_or: "check_in allowed v \<Longrightarrow> check_in allowed (js_or v JNull)"
  by (simp add: js_or_def check_in_def is_null_def)

lemma row_direction: "get_prop (event_row n ev) ''direction'' = js_or (get_prop ev ''direction'') JNull"
  by (simp add: event_row_def)

lemma row_source: "get_prop (event_row n ev) ''source'' = js_or (get_prop ev ''source'') JNull"
  by (simp add: event_row_def)

lemma row_event_id: "get_prop (event_row n ev) ''event_id'' = get_prop ev ''event_id''"
  by (simp add: event_row_def)

lemma valid_event_accepted:
  assumes "\<forall>f \<in> set required_fields. truthy (get_prop ev f)"
      and "check_in directions (get_prop ev ''direction'')"
      and "check_in sources (get_prop ev ''source'')"
      and "\<forall>old \<in> set t. as_text cast (get_prop old ''event_id'')
                            \<noteq> as_text cast (get_prop ev ''event_id'')"
  shows "insert_row None cast t (event_row n ev) = Inr (t @ [event_row n ev])"
proof (rule insert_row_accepts)
  show "filter (\<lambda>c. is_null (get_prop (event_row n ev) c)) not_null_columns = []"
    using assms(1) by (rule row_not_null)
  show "check_in directions (get_prop (event_row n ev) ''direction'')"
    unfolding row_direction using assms(2) by (rule check_in_js_or)
  show "check_in sources (get_prop (event_row n ev) ''source'')"
    unfolding row_source using assms(3) by (rule check_in_js_or)
  show "\<forall>old \<in> set t. as_text cast (get_prop old ''event_id'')
                         \<noteq> as_text cast (get_prop (event_row n ev) ''event_id'')"
    unfolding row_event_id using assms(4) .
qed

lemma message_names_fields: "\<forall>f \<in> set required_fields. sublist f missing_fields_message"
proof -
  have "missing_fields_message = ''Missing required fields: '' @ ''event_id'' @ '', conversation_id, merchant_id''"
    by (simp add: missing_fields_message_def)
  then have 1: "sublist ''event_id'' missing_fields_message"
    unfolding sublist_def by blast
  have "missing_fields_message = ''Missing required fields: event_id, '' @ ''conversation_id'' @ '', merchant_id''"
    by (simp add: missing_fields_message_def)
  then have 2: "sublist ''conversation_id'' missing_fields_message"
    unfolding sublist_def by blast
  have "missing_fields_message = ''Missing required fields: event_id, conversation_id, '' @ ''merchant_id'' @ []"
    by (simp add: missing_fields_message_def)
  then have 3: "sublist ''merchant_id'' missing_fields_message"
    unfolding sublist_def by blast
  from 1 2 3 show ?thesis by (simp add: required_fields_def)
qed

lemma insert_row_accepted_iff:
  "(insert_row fault cast t row = Inr t') =
     (fault = None \<and> filter (\<lambda>c. is_null (get_prop row c)) not_null_columns = []
      \<and> check_in directions (get_prop row ''direction'')
      \<and> check_in sources (get_prop row ''source'')
      \<and> (\<forall>old \<in> set t. as_text cast (get_prop old ''event_id'')
                             \<noteq> as_text cast (get_prop row ''event_id''))
      \<and> t' = t @ [row])"
  by (auto simp: insert_row_def split: option.splits list.splits)

lemma status_200_inserted:
  assumes "status (fst (handler e req s)) = 200"
  shows "http_method req = Some ''POST'' \<and> authorization req = Some (bearer (LOGGER_API_KEY e))
       \<and> (\<forall>f \<in> set required_fields. truthy (get_prop (body req) f))
       \<and> insert_row (store_fault e) (text_cast e) (conversation_events s) (event_row (now e) (body req))
           = Inr (conversation_events s @ [event_row (now e) (body req)])"
proof -
  have post: "http_method req = Some ''POST''"
    using assms by (rule contrapos_pp) (simp add: handler_not_post reply_def)
  have auth: "authorization req = Some (bearer (LOGGER_API_KEY e))"
    using assms by (rule contrapos_pp) (simp add: handler_unauthorized [OF post] reply_def)
  have valid: "\<forall>f \<in> set required_fields. truthy (get_prop (body req) f)"
  proof (rule ccontr)
    assume "\<not> ?thesis"
    then have "\<not> truthy (body req) \<or> (\<exists>f \<in> set required_fields. \<not> truthy (get_prop (body req) f))"
      by blast
    from handler_invalid [OF post auth this, of s] assms show False
      by (simp add: reply_def)
  qed
  from handler_insert [OF post auth valid, of s] assms
  obtain t' where "insert_row (store_fault e) (text_cast e) (conversation_events s) (event_row (now e) (body req)) = Inr t'"
    by (auto simp: reply_def split: sum.splits)
  with insert_row_appends [OF this] post auth valid show ?thesis by simp
qed

lemma duplicate_m1_rejected:
  "insert_row (store_fault env0) (text_cast env0) (conversation_events server_m1) (event_row (now env0) (body post_m1))
     = Inl UniqueViolation"
  by (simp add: insert_row_def env0_def server_m1_def post_m1_def event_m1_def event_row_def
        not_null_columns_def is_null_def js_or_def check_in_def directions_def sources_def)

text \<open>The key is the text: the number 7 is refused when the table holds the string
  \<open>7\<close>, though the two values differ.\<close>

lemma number_after_its_text_rejected:
  "get_prop (body post_7) ''event_id'' \<noteq> get_prop (hd (conversation_events server_7)) ''event_id''
   \<and> status (fst (handler env0 post_7 server_7)) = 500
   \<and> conversation_events (snd (handler env0 post_7 server_7)) = conversation_events server_7"
proof -
  have 1: "http_method post_7 = Some ''POST''" by (simp add: post_7_def)
  have 2: "authorization post_7 = Some (bearer (LOGGER_API_KEY env0))"
    by (simp add: post_7_def env0_def bearer_def)
  have 3: "\<forall>f \<in> set required_fields. truthy (get_prop (body post_7) f)"
    by (simp add: post_7_def event_7_def required_fields_def)
  have r: "insert_row (store_fault env0) (text_cast env0) (conversation_events server_7)
             (event_row (now env0) (body post_7)) = Inl UniqueViolation"
    by (simp add: insert_row_def env0_def server_7_def post_7_def event_7_def event_row_def
          not_null_columns_def is_null_def js_or_def check_in_def)
  have n: "get_prop (body post_7) ''event_id'' \<noteq> get_prop (hd (conversation_events server_7)) ''event_id''"
    by (simp add: post_7_def event_7_def server_7_def event_row_def)
  from handler_insert [OF 1 2 3, of server_7] r n show ?thesis
    by (simp add: reply_def)
qed

lemma row_model_calls:
  "get_prop (event_row n ev) ''model_calls'' = js_or (get_prop ev ''model_calls'') JNull"
  by (simp add: event_row_def)

lemma row_other_model_calls:
  "filter (\<lambda>c. is_null (get_prop (event_row n (JObj ((''model_calls'', v) # kvs))) c)) not_null_columns
     = filter (\<lambda>c. is_null (get_prop (event_row n (JObj kvs)) c)) not_null_columns"
  "get_prop (event_row n (JObj ((''model_calls'', v) # kvs))) ''direction''
     = get_prop (event_row n (JObj kvs)) ''direction''"
  "get_prop (event_row n (JObj ((''model_calls'', v) # kvs))) ''source''
     = get_prop (event_row n (JObj kvs)) ''source''"
  "get_prop (event_row n (JObj ((''model_calls'', v) # kvs))) ''event_id''
     = get_prop (event_row n (JObj kvs)) ''event_id''"
  by (simp_all add: event_row_def not_null_columns_def)

lemma required_other_model_calls:
  "(\<forall>f \<in> set required_fields. truthy (get_prop (JObj ((''model_calls'', v) # kvs)) f))
     = (\<forall>f \<in> set required_fields. truthy (get_prop (JObj kvs) f))"
  by (simp add: required_fields_def)

subsection \<open>The dispatcher\<close>

lemma log_event_not_configured:
  "py_not (LOGGER_ENDPOINT cfg) \<or> py_not (LOGGER_API_KEY_py cfg) \<Longrightarrow>
   log_event cfg net d = ([LogWarning NotConfigured], None)"
  by (simp add: log_event_def)

lemma log_event_configured:
  assumes "LOGGER_ENDPOINT cfg = Some url" "url \<noteq> []"
      and "LOGGER_API_KEY_py cfg = Some key" "key \<noteq> []"
  shows "log_event cfg net d =
     (case net of
        Response status_code \<Rightarrow>
          (if status_code \<noteq> 200
             then ([HttpPost url (''Bearer '' @ key) d net, LogWarning (ReceivedStatus status_code)], None)
           else ([HttpPost url (''Bearer '' @ key) d net], None))
      | Raises ex \<Rightarrow>
          (if isinstance_TimeoutException ex
             then ([HttpPost url (''Bearer '' @ key) d net, LogWarning TimedOut], None)
           else if isinstance_Exception ex
             then ([HttpPost url (''Bearer '' @ key) d net, LogWarning (Failed ex)], None)
           else ([HttpPost url (''Bearer '' @ key) d net], Some ex)))"
  using assms by (simp add: log_event_def Let_def split: post_result.splits)

lemma configured_cases:
  obtains "py_not (LOGGER_ENDPOINT cfg) \<or> py_not (LOGGER_API_KEY_py cfg)"
  | url key where "LOGGER_ENDPOINT cfg = Some url" "url \<noteq> []"
      "LOGGER_API_KEY_py cfg = Some key" "key \<noteq> []"
  by (cases "LOGGER_ENDPOINT cfg"; cases "LOGGER_API_KEY_py cfg") auto

lemma log_event_catches:
  assumes "delivery_failure net"
  shows "snd (log_event cfg net d) = None \<and> (\<exists>w. LogWarning w \<in> set (fst (log_event cfg net d)))"
proof (cases cfg rule: configured_cases)
  case 1
  then show ?thesis by (simp add: log_event_not_configured)
next
  case (2 url key)
  show ?thesis
    using assms unfolding log_event_configured [OF 2]
    by (cases net) auto
qed

lemma fire_log_effects:
  "before_return (fire_log cfg loop net d) @ detached (fire_log cfg loop net d)
     = fst (log_event cfg net d)"
  by (cases loop) (simp_all add: fire_log_def split: prod.splits option.splits)

lemma fire_log_raised:
  "raised (fire_log cfg loop net d) =
     (case (loop, snd (log_event cfg net d)) of
        (NoLoop, Some ex) \<Rightarrow> (if isinstance_Exception ex then None else Some ex)
      | _ \<Rightarrow> None)"
  by (cases loop) (simp_all add: fire_log_def split: prod.splits option.splits)

lemma fire_log_running:
  "before_return (fire_log cfg Running net d) = [] \<and> raised (fire_log cfg Running net d) = None"
  by (simp add: fire_log_def)

lemma fire_log_no_loop:
  "before_return (fire_log cfg NoLoop net d) = fst (log_event cfg net d)
   \<and> detached (fire_log cfg NoLoop net d) = []"
  by (simp add: fire_log_def split: prod.splits option.splits)

lemma fire_log_no_loop_posts_first:
  assumes "\<not> py_not (LOGGER_ENDPOINT cfg)" "\<not> py_not (LOGGER_API_KEY_py cfg)"
  shows "\<exists>p \<in> set (before_return (fire_log cfg NoLoop net d)). is_post p"
proof (cases cfg rule: configured_cases)
  case 1
  with assms show ?thesis by simp
next
  case (2 url key)
  show ?thesis
    unfolding fire_log_no_loop [THEN conjunct1] log_event_configured [OF 2]
    by (cases net) auto
qed

text \<open>An exception outside class \<open>Exception\<close> is not a delivery failure, and
  \<open>except Exception\<close> lets it through when the coroutine runs under \<open>asyncio.run\<close>.\<close>

lemma keyboard_interrupt_escapes:
  "raised (fire_log cfg0 NoLoop (Raises KeyboardInterrupt) event_m1) = Some KeyboardInterrupt"
  by (simp add: fire_log_def log_event_def cfg0_def url0_def)

section \<open>The claims\<close>

subsection \<open>Ingestion endpoint\<close>

text \<open>
  C1, as amended. A POST request with the right credential and a body whose \<open>event_id\<close>,
  \<open>conversation_id\<close> and \<open>merchant_id\<close> are truthy makes exactly one call of \<open>insert\<close>.
  The row carries the three identifiers as sent; each other field as sent when its value is
  truthy, and \<open>null\<close> when the body has no such field; \<open>timestamp\<close> as sent when its
  value is truthy, and the current instant when the body has no such field. When the store
  reports no fault, \<open>direction\<close> and \<open>source\<close> are each absent, \<open>null\<close> or one of the
  allowed values, and no row of the table holds the same text as \<open>event_id\<close>, the table
  grows by exactly this row, nothing goes to \<open>console.error\<close>, and the response is 200 with \<open>{"ok": true}\<close>.
\<close>

theorem valid_event_inserted_once:
  assumes "http_method req = Some ''POST''"
      and "authorization req = Some (bearer (LOGGER_API_KEY e))"
      and "\<forall>f \<in> set required_fields. truthy (get_prop (body req) f)"
      and "row = event_row (now e) (body req)"
  shows "insert_calls (snd (handler e req s)) = insert_calls s @ [row]
       \<and> (\<forall>f \<in> set required_fields. get_prop row f = get_prop (body req) f)
       \<and> (\<forall>f \<in> set optional_fields.
             (truthy (get_prop (body req) f) \<longrightarrow> get_prop row f = get_prop (body req) f)
             \<and> (get_prop (body req) f = JUndefined \<longrightarrow> get_prop row f = JNull))
       \<and> (truthy (get_prop (body req) ''timestamp'') \<longrightarrow>
             get_prop row ''timestamp'' = get_prop (body req) ''timestamp'')
       \<and> (get_prop (body req) ''timestamp'' = JUndefined \<longrightarrow>
             get_prop row ''timestamp'' = JStr (now e))
       \<and> (store_fault e = None
            \<and> check_in directions (get_prop (body req) ''direction'')
            \<and> check_in sources (get_prop (body req) ''source'')
            \<and> (\<forall>old \<in> set (conversation_events s).
                  as_text (text_cast e) (get_prop old ''event_id'') \<noteq> as_text (text_cast e) (get_prop (body req) ''event_id'')) \<longrightarrow>
            fst (handler e req s) = \<lparr>status = 200, json = JObj [(''ok'', JBool True)]\<rparr>
            \<and> conversation_events (snd (handler e req s)) = conversation_events s @ [row]
            \<and> console_error (snd (handler e req s)) = console_error s)"
proof -
  note h = handler_insert [OF assms(1-3), of s]
  have once: "insert_calls (snd (handler e req s)) = insert_calls s @ [row]"
    unfolding h assms(4) by (simp split: sum.splits)
  have req: "\<forall>f \<in> set required_fields. get_prop row f = get_prop (body req) f"
    unfolding assms(4) by (rule row_required)
  have opt: "\<forall>f \<in> set optional_fields.
             (truthy (get_prop (body req) f) \<longrightarrow> get_prop row f = get_prop (body req) f)
             \<and> (get_prop (body req) f = JUndefined \<longrightarrow> get_prop row f = JNull)"
  proof
    fix f assume "f \<in> set optional_fields"
    with row_optional [of "now e" "body req"]
    have "get_prop row f = js_or (get_prop (body req) f) JNull"
      unfolding assms(4) by blast
    then show "(truthy (get_prop (body req) f) \<longrightarrow> get_prop row f = get_prop (body req) f)
             \<and> (get_prop (body req) f = JUndefined \<longrightarrow> get_prop row f = JNull)"
      by (simp add: js_or_def)
  qed
  have ts: "(truthy (get_prop (body req) ''timestamp'') \<longrightarrow>
             get_prop row ''timestamp'' = get_prop (body req) ''timestamp'')
       \<and> (get_prop (body req) ''timestamp'' = JUndefined \<longrightarrow>
             get_prop row ''timestamp'' = JStr (now e))"
    unfolding assms(4) row_timestamp by (simp add: js_or_def)
  have ok: "fst (handler e req s) = \<lparr>status = 200, json = JObj [(''ok'', JBool True)]\<rparr>
            \<and> conversation_events (snd (handler e req s)) = conversation_events s @ [row]
            \<and> console_error (snd (handler e req s)) = console_error s"
    if "store_fault e = None"
      and "check_in directions (get_prop (body req) ''direction'')"
      and "check_in sources (get_prop (body req) ''source'')"
      and "\<forall>old \<in> set (conversation_events s).
                  as_text (text_cast e) (get_prop old ''event_id'') \<noteq> as_text (text_cast e) (get_prop (body req) ''event_id'')"
  proof -
    have "insert_row (store_fault e) (text_cast e) (conversation_events s) row = Inr (conversation_events s @ [row])"
      unfolding assms(4) that(1)
      using assms(3) that(2,3,4) by (rule valid_event_accepted)
    then show ?thesis
      unfolding h assms(4) by (simp add: reply_def)
  qed
  from once req opt ts ok show ?thesis by blast
qed

text \<open>
  The spec's example: the inbound customer event \<open>m1\<close> with language \<open>es-MX\<close> sent to
  an empty table.
\<close>

theorem valid_event_inserted_once_witness:
  "http_method post_m1 = Some ''POST''
   \<and> authorization post_m1 = Some (bearer (LOGGER_API_KEY env0))
   \<and> truthy (get_prop (body post_m1) ''event_id'')
   \<and> truthy (get_prop (body post_m1) ''conversation_id'')
   \<and> truthy (get_prop (body post_m1) ''merchant_id'')
   \<and> store_fault env0 = None
   \<and> check_in directions (get_prop (body post_m1) ''direction'')
   \<and> check_in sources (get_prop (body post_m1) ''source'')
   \<and> get_prop (body post_m1) ''timestamp'' = JUndefined
   \<and> get_prop (body post_m1) ''model_calls'' = JUndefined
   \<and> truthy (get_prop (body post_m1) ''language'')
   \<and> fst (handler env0 post_m1 server0) = \<lparr>status = 200, json = JObj [(''ok'', JBool True)]\<rparr>
   \<and> conversation_events (snd (handler env0 post_m1 server0)) = [event_row (now env0) (body post_m1)]
   \<and> insert_calls (snd (handler env0 post_m1 server0)) = [event_row (now env0) (body post_m1)]
   \<and> get_prop (event_row (now env0) (body post_m1)) ''event_id'' = JStr ''m1''
   \<and> get_prop (event_row (now env0) (body post_m1)) ''language'' = JStr ''es-MX''
   \<and> get_prop (event_row (now env0) (body post_m1)) ''model_calls'' = JNull
   \<and> get_prop (event_row (now env0) (body post_m1)) ''timestamp'' = JStr (now env0)"
proof -
  have 1: "http_method post_m1 = Some ''POST''" by (simp add: post_m1_def)
  have 2: "authorization post_m1 = Some (bearer (LOGGER_API_KEY env0))"
    by (simp add: post_m1_def env0_def bearer_def)
  have 3: "\<forall>f \<in> set required_fields. truthy (get_prop (body post_m1) f)"
    by (simp add: post_m1_def event_m1_def required_fields_def)
  have 4: "store_fault env0 = None
     \<and> check_in directions (get_prop (body post_m1) ''direction'')
     \<and> check_in sources (get_prop (body post_m1) ''source'')
     \<and> (\<forall>old \<in> set (conversation_events server0).
                  as_text (text_cast env0) (get_prop old ''event_id'') \<noteq> as_text (text_cast env0) (get_prop (body post_m1) ''event_id''))"
    by (simp add: env0_def post_m1_def event_m1_def check_in_def directions_def sources_def
          server0_def)
  have 5: "get_prop (body post_m1) ''timestamp'' = JUndefined"
      "get_prop (body post_m1) ''model_calls'' = JUndefined"
      "truthy (get_prop (body post_m1) ''language'')"
      "get_prop (body post_m1) ''language'' = JStr ''es-MX''"
      "get_prop (body post_m1) ''event_id'' = JStr ''m1''"
    by (simp_all add: post_m1_def event_m1_def)
  have 6: "''language'' \<in> set optional_fields" "''model_calls'' \<in> set optional_fields"
      "''event_id'' \<in> set required_fields"
    by (simp_all add: optional_fields_def required_fields_def)
  have 7: "conversation_events server0 = []" "insert_calls server0 = []"
    by (simp_all add: server0_def)
  have 8: "truthy (get_prop (body post_m1) ''event_id'')"
      "truthy (get_prop (body post_m1) ''conversation_id'')"
      "truthy (get_prop (body post_m1) ''merchant_id'')"
    by (simp_all add: post_m1_def event_m1_def)
  from valid_event_inserted_once [OF 1 2 3 refl, of server0] 1 2 3 4 5 6 7 8
  show ?thesis by (metis append_Nil)
qed

text \<open>
  C1 as stated fails twice. A GET request with the right credential and a complete body
  is answered 405 and inserts nothing. And a POST whose body has \<open>response_time_ms: 0\<close> is
  accepted with 200, but the stored row has \<open>response_time_ms\<close> \<open>null\<close>: \<open>0 || null\<close> is
  \<open>null\<close>.
\<close>

theorem valid_event_inserted_once_counterexample:
  "authorization get_m1 = Some (bearer (LOGGER_API_KEY env0))
   \<and> truthy (get_prop (body get_m1) ''event_id'')
   \<and> truthy (get_prop (body get_m1) ''conversation_id'')
   \<and> truthy (get_prop (body get_m1) ''merchant_id'')
   \<and> status (fst (handler env0 get_m1 server0)) = 405
   \<and> insert_calls (snd (handler env0 get_m1 server0)) = []
   \<and> http_method post_zero_ms = Some ''POST''
   \<and> authorization post_zero_ms = Some (bearer (LOGGER_API_KEY env0))
   \<and> truthy (get_prop (body post_zero_ms) ''event_id'')
   \<and> truthy (get_prop (body post_zero_ms) ''conversation_id'')
   \<and> truthy (get_prop (body post_zero_ms) ''merchant_id'')
   \<and> get_prop (body post_zero_ms) ''response_time_ms'' = JNum 0
   \<and> status (fst (handler env0 post_zero_ms server0)) = 200
   \<and> get_prop (last (conversation_events (snd (handler env0 post_zero_ms server0)))) ''response_time_ms'' = JNull"
proof -
  have g: "authorization get_m1 = Some (bearer (LOGGER_API_KEY env0))
      \<and> truthy (get_prop (body get_m1) ''event_id'')
      \<and> truthy (get_prop (body get_m1) ''conversation_id'')
      \<and> truthy (get_prop (body get_m1) ''merchant_id'')
      \<and> status (fst (handler env0 get_m1 server0)) = 405
      \<and> insert_calls (snd (handler env0 get_m1 server0)) = []"
    by (simp add: handler_def get_m1_def env0_def bearer_def reply_def server0_def
          required_fields_def event_m1_def)
  have p: "http_method post_zero_ms = Some ''POST''"
      "authorization post_zero_ms = Some (bearer (LOGGER_API_KEY env0))"
      "\<forall>f \<in> set required_fields. truthy (get_prop (body post_zero_ms) f)"
      "get_prop (body post_zero_ms) ''response_time_ms'' = JNum 0"
    by (simp_all add: post_zero_ms_def event_zero_ms_def env0_def bearer_def required_fields_def)
  have acc: "insert_row (store_fault env0) (text_cast env0) (conversation_events server0) (event_row (now env0) (body post_zero_ms))
      = Inr (conversation_events server0 @ [event_row (now env0) (body post_zero_ms)])"
    unfolding env0_def env.simps
    by (rule valid_event_accepted)
       (simp_all add: post_zero_ms_def event_zero_ms_def required_fields_def check_in_def
          directions_def sources_def server0_def)
  have r: "get_prop (event_row (now env0) (body post_zero_ms)) ''response_time_ms'' = JNull"
    by (simp add: event_row_def post_zero_ms_def event_zero_ms_def js_or_def)
  have h: "handler env0 post_zero_ms server0 =
      (reply 200 (JObj [(''ok'', JBool True)]),
       server0\<lparr>insert_calls := insert_calls server0 @ [event_row (now env0) (body post_zero_ms)],
               conversation_events := conversation_events server0 @ [event_row (now env0) (body post_zero_ms)]\<rparr>)"
    using handler_insert [OF p(1,2,3), of server0] acc by simp
  have q: "truthy (get_prop (body post_zero_ms) ''event_id'')"
      "truthy (get_prop (body post_zero_ms) ''conversation_id'')"
      "truthy (get_prop (body post_zero_ms) ''merchant_id'')"
    by (simp_all add: post_zero_ms_def event_zero_ms_def)
  from g p(1,2,4) q r show ?thesis by (simp add: h reply_def)
qed

text \<open>
  C2, as amended. A request whose Authorization header is missing or differs from
  \<open>Bearer <secret>\<close> leaves the server state as it was and is answered the same whatever
  its body is; when it is a POST, the answer is 401 with \<open>{"error": "Unauthorized"}\<close>.
\<close>

theorem bad_credential_rejected:
  assumes "authorization req \<noteq> Some (bearer (LOGGER_API_KEY e))"
  shows "snd (handler e req s) = s
       \<and> handler e (req\<lparr>body := b\<rparr>) s = handler e req s
       \<and> (http_method req = Some ''POST'' \<longrightarrow>
            fst (handler e req s) = \<lparr>status = 401, json = JObj [(''error'', JStr ''Unauthorized'')]\<rparr>)"
proof (cases "http_method req = Some ''POST''")
  case True
  have "handler e (req\<lparr>body := b\<rparr>) s = (reply 401 (JObj [(''error'', JStr ''Unauthorized'')]), s)"
    using True assms by (intro handler_unauthorized) simp_all
  then show ?thesis
    using True assms by (simp add: handler_unauthorized reply_def)
next
  case False
  have "handler e (req\<lparr>body := b\<rparr>) s = (reply 405 (JObj [(''error'', JStr ''Method not allowed'')]), s)"
    using False by (intro handler_not_post) simp
  then show ?thesis
    using False by (simp add: handler_not_post)
qed

theorem bad_credential_rejected_witness:
  "authorization post_wrong \<noteq> Some (bearer (LOGGER_API_KEY env0))
   \<and> http_method post_wrong = Some ''POST''
   \<and> handler env0 post_wrong server0 =
       (\<lparr>status = 401, json = JObj [(''error'', JStr ''Unauthorized'')]\<rparr>, server0)"
  using bad_credential_rejected [of post_wrong env0 server0]
  by (simp add: post_wrong_def env0_def bearer_def prod_eq_iff)

text \<open>
  C2 as stated covers every verb, but a GET with a wrong credential is answered 405: the
  verb is checked before the credential.
\<close>

theorem bad_credential_any_verb_counterexample:
  "authorization get_wrong \<noteq> Some (bearer (LOGGER_API_KEY env0))
   \<and> status (fst (handler env0 get_wrong server0)) = 405
   \<and> status (fst (handler env0 get_wrong server0)) \<noteq> 401"
  by (simp add: handler_def get_wrong_def env0_def bearer_def reply_def)

text \<open>
  C3. An authenticated POST whose body is falsy (absent, \<open>null\<close>, ...) or has one of the
  three identifiers falsy (absent, \<open>null\<close>, the empty string, ...) changes nothing and is
  answered 400 with the message \<open>Missing required fields: event_id, conversation_id,
  merchant_id\<close>, in which the name of each required field occurs, so each missing one too.
\<close>

theorem missing_identifier_bad_request:
  assumes "http_method req = Some ''POST''"
      and "authorization req = Some (bearer (LOGGER_API_KEY e))"
      and "\<not> truthy (body req) \<or> (\<exists>f \<in> set required_fields. \<not> truthy (get_prop (body req) f))"
  shows "handler e req s =
           (\<lparr>status = 400, json = JObj [(''error'', JStr missing_fields_message)]\<rparr>, s)
       \<and> (\<forall>f \<in> set required_fields. sublist f missing_fields_message)"
  using handler_invalid [OF assms] message_names_fields
  by (simp add: reply_def missing_fields_message_def)

theorem missing_identifier_bad_request_witness:
  "http_method post_no_merchant = Some ''POST''
   \<and> authorization post_no_merchant = Some (bearer (LOGGER_API_KEY env0))
   \<and> \<not> truthy (get_prop (body post_no_merchant) ''merchant_id'')
   \<and> handler env0 post_no_merchant server0 =
       (\<lparr>status = 400, json = JObj [(''error'', JStr missing_fields_message)]\<rparr>, server0)
   \<and> sublist ''merchant_id'' missing_fields_message"
  using missing_identifier_bad_request [of post_no_merchant env0 server0]
  by (simp add: post_no_merchant_def env0_def bearer_def required_fields_def)

text \<open>
  C4. A request whose verb is not POST is answered 405 with
  \<open>{"error": "Method not allowed"}\<close> and changes nothing; the outcome is the same for any
  other header, body, secret, clock and store fault, so none of them is looked at.
\<close>

theorem other_verb_method_not_allowed:
  assumes "http_method req \<noteq> Some ''POST''"
  shows "handler e req s =
           (\<lparr>status = 405, json = JObj [(''error'', JStr ''Method not allowed'')]\<rparr>, s)
       \<and> handler e' (req\<lparr>authorization := a, body := b\<rparr>) s = handler e req s"
  using assms by (simp add: handler_not_post reply_def)

theorem other_verb_method_not_allowed_witness:
  "http_method get_m1 \<noteq> Some ''POST''
   \<and> handler env0 get_m1 server0 =
       (\<lparr>status = 405, json = JObj [(''error'', JStr ''Method not allowed'')]\<rparr>, server0)"
  using other_verb_method_not_allowed [of get_m1 env0 server0]
  by (simp add: get_m1_def)

text \<open>
  C5. For an authenticated POST with truthy identifiers: when the store rejects the row,
  the answer is 500 with the store's message, the table is as before, \<open>insert\<close> has been
  called exactly once and the error is on \<open>console.error\<close>. A row whose \<open>event_id\<close> is
  already in the table (the same value, or any value of the same text) is always rejected,
  so the answer is 500 and the table, with the original row, is unchanged.
\<close>

theorem store_rejection_reported:
  assumes "http_method req = Some ''POST''"
      and "authorization req = Some (bearer (LOGGER_API_KEY e))"
      and "\<forall>f \<in> set required_fields. truthy (get_prop (body req) f)"
      and "row = event_row (now e) (body req)"
  shows "(\<forall>err. insert_row (store_fault e) (text_cast e) (conversation_events s) row = Inl err \<longrightarrow>
            handler e req s =
              (\<lparr>status = 500, json = JObj [(''error'', JStr (error_message err))]\<rparr>,
               s\<lparr>insert_calls := insert_calls s @ [row],
                  console_error := console_error s @ [err]\<rparr>))
       \<and> ((\<exists>old \<in> set (conversation_events s).
               as_text (text_cast e) (get_prop old ''event_id'')
                 = as_text (text_cast e) (get_prop (body req) ''event_id'')) \<longrightarrow>
            status (fst (handler e req s)) = 500
            \<and> conversation_events (snd (handler e req s)) = conversation_events s
            \<and> insert_calls (snd (handler e req s)) = insert_calls s @ [row])"
proof (intro conjI allI impI)
  fix err
  assume "insert_row (store_fault e) (text_cast e) (conversation_events s) row = Inl err"
  with handler_insert [OF assms(1-3), of s] assms(4)
  show "handler e req s =
          (\<lparr>status = 500, json = JObj [(''error'', JStr (error_message err))]\<rparr>,
           s\<lparr>insert_calls := insert_calls s @ [row], console_error := console_error s @ [err]\<rparr>)"
    by (simp add: reply_def)
next
  assume "\<exists>old \<in> set (conversation_events s).
               as_text (text_cast e) (get_prop old ''event_id'')
                 = as_text (text_cast e) (get_prop (body req) ''event_id'')"
  then have "\<exists>old \<in> set (conversation_events s).
               as_text (text_cast e) (get_prop old ''event_id'')
                 = as_text (text_cast e) (get_prop row ''event_id'')"
    by (simp add: assms(4) row_event_id)
  from insert_row_duplicate [OF this]
  obtain err where "insert_row (store_fault e) (text_cast e) (conversation_events s) row = Inl err" by blast
  with handler_insert [OF assms(1-3), of s] assms(4)
  have h: "handler e req s =
          (reply 500 (JObj [(''error'', JStr (error_message err))]),
           s\<lparr>insert_calls := insert_calls s @ [row], console_error := console_error s @ [err]\<rparr>)"
    by simp
  show "status (fst (handler e req s)) = 500" by (simp add: h reply_def)
  show "conversation_events (snd (handler e req s)) = conversation_events s" by (simp add: h)
  show "insert_calls (snd (handler e req s)) = insert_calls s @ [row]" by (simp add: h)
qed

text \<open>
  The spec's example: \<open>m1\<close> sent a second time.
\<close>

theorem store_rejection_reported_witness:
  "http_method post_m1 = Some ''POST''
   \<and> authorization post_m1 = Some (bearer (LOGGER_API_KEY env0))
   \<and> truthy (get_prop (body post_m1) ''event_id'')
   \<and> truthy (get_prop (body post_m1) ''conversation_id'')
   \<and> truthy (get_prop (body post_m1) ''merchant_id'')
   \<and> (\<exists>old \<in> set (conversation_events server_m1).
          as_text (text_cast env0) (get_prop old ''event_id'')
            = as_text (text_cast env0) (get_prop (body post_m1) ''event_id''))
   \<and> handler env0 post_m1 server_m1 =
       (\<lparr>status = 500, json = JObj [(''error'', JStr (error_message UniqueViolation))]\<rparr>,
        server_m1\<lparr>insert_calls := insert_calls server_m1 @ [event_row (now env0) (body post_m1)],
                  console_error := [UniqueViolation]\<rparr>)
   \<and> conversation_events (snd (handler env0 post_m1 server_m1)) = conversation_events server_m1"
proof -
  have 1: "http_method post_m1 = Some ''POST''" by (simp add: post_m1_def)
  have 2: "authorization post_m1 = Some (bearer (LOGGER_API_KEY env0))"
    by (simp add: post_m1_def env0_def bearer_def)
  have 3: "\<forall>f \<in> set required_fields. truthy (get_prop (body post_m1) f)"
    by (simp add: post_m1_def event_m1_def required_fields_def)
  have 4: "\<exists>old \<in> set (conversation_events server_m1).
          as_text (text_cast env0) (get_prop old ''event_id'')
            = as_text (text_cast env0) (get_prop (body post_m1) ''event_id'')"
    by (simp add: server_m1_def post_m1_def event_m1_def event_row_def)
  have 5: "console_error server_m1 = []" by (simp add: server_m1_def)
  have 6: "truthy (get_prop (body post_m1) ''event_id'')"
      "truthy (get_prop (body post_m1) ''conversation_id'')"
      "truthy (get_prop (body post_m1) ''merchant_id'')"
    by (simp_all add: post_m1_def event_m1_def)
  from store_rejection_reported [OF 1 2 3 refl, of server_m1] duplicate_m1_rejected 1 2 4 5 6
  show ?thesis by simp
qed

text \<open>
  C6. When a request whose body has the array \<open>calls\<close> as \<open>model_calls\<close> is answered
  200, the table has grown by one row whose \<open>model_calls\<close> is \<open>calls\<close>, the same list in
  the same order. The same request with any other array in its place is answered 200 as
  well: the entries and their \<open>step\<close> values are not looked at.
\<close>

theorem model_calls_stored_as_sent:
  assumes "body req = JObj kvs"
      and "map_of kvs ''model_calls'' = Some (JArr calls)"
      and "status (fst (handler e req s)) = 200"
  shows "(\<exists>row. conversation_events (snd (handler e req s)) = conversation_events s @ [row]
            \<and> get_prop row ''model_calls'' = JArr calls)
       \<and> (\<forall>calls'. status (fst (handler e (req\<lparr>body := JObj ((''model_calls'', JArr calls') # kvs)\<rparr>) s)) = 200)"
proof (intro conjI allI)
  from status_200_inserted [OF assms(3)]
  have post: "http_method req = Some ''POST''"
    and auth: "authorization req = Some (bearer (LOGGER_API_KEY e))"
    and valid: "\<forall>f \<in> set required_fields. truthy (get_prop (body req) f)"
    and acc: "insert_row (store_fault e) (text_cast e) (conversation_events s) (event_row (now e) (body req))
               = Inr (conversation_events s @ [event_row (now e) (body req)])"
    by simp_all
  have stored: "conversation_events (snd (handler e req s))
      = conversation_events s @ [event_row (now e) (body req)]"
    using handler_insert [OF post auth valid, of s] acc by simp
  have kept: "get_prop (event_row (now e) (body req)) ''model_calls'' = JArr calls"
    using assms(1,2) by (simp add: row_model_calls js_or_def)
  from stored kept
  show "\<exists>row. conversation_events (snd (handler e req s)) = conversation_events s @ [row]
            \<and> get_prop row ''model_calls'' = JArr calls"
    by blast
  fix calls'
  let ?req' = "req\<lparr>body := JObj ((''model_calls'', JArr calls') # kvs)\<rparr>"
  have post': "http_method ?req' = Some ''POST''" using post by simp
  have auth': "authorization ?req' = Some (bearer (LOGGER_API_KEY e))" using auth by simp
  have valid': "\<forall>f \<in> set required_fields. truthy (get_prop (body ?req') f)"
    using valid assms(1) by (simp add: required_other_model_calls)
  from acc assms(1)
  have "insert_row (store_fault e) (text_cast e) (conversation_events s) (event_row (now e) (body ?req'))
          = Inr (conversation_events s @ [event_row (now e) (body ?req')])"
    by (simp add: insert_row_accepted_iff row_other_model_calls)
  with handler_insert [OF post' auth' valid', of s]
  show "status (fst (handler e ?req' s)) = 200"
    by (simp add: reply_def)
qed

theorem model_calls_stored_as_sent_witness:
  "body post_calls = JObj [(''event_id'', JStr ''m3''), (''conversation_id'', JStr ''c1''),
                  (''merchant_id'', JStr ''merch1''), (''model_calls'', JArr station_calls)]
   \<and> status (fst (handler env0 post_calls server0)) = 200
   \<and> (\<exists>row. conversation_events (snd (handler env0 post_calls server0)) = [row]
          \<and> get_prop row ''model_calls'' = JArr station_calls)"
proof -
  have b: "body post_calls = JObj [(''event_id'', JStr ''m3''), (''conversation_id'', JStr ''c1''),
                  (''merchant_id'', JStr ''merch1''), (''model_calls'', JArr station_calls)]"
    by (simp add: post_calls_def)
  have m: "map_of [(''event_id'', JStr ''m3''), (''conversation_id'', JStr ''c1''),
                  (''merchant_id'', JStr ''merch1''), (''model_calls'', JArr station_calls)] ''model_calls''
            = Some (JArr station_calls)"
    by simp
  have acc: "insert_row (store_fault env0) (text_cast env0) (conversation_events server0) (event_row (now env0) (body post_calls))
      = Inr (conversation_events server0 @ [event_row (now env0) (body post_calls)])"
    unfolding env0_def env.simps
    by (rule valid_event_accepted)
       (simp_all add: post_calls_def required_fields_def check_in_def is_null_def server0_def)
  have ok: "status (fst (handler env0 post_calls server0)) = 200"
    using handler_insert [of post_calls env0 server0] acc
    by (simp add: post_calls_def env0_def bearer_def required_fields_def reply_def)
  from model_calls_stored_as_sent [OF b m ok] b ok show ?thesis
    by (simp add: server0_def)
qed

text \<open>
  C9. The status is decided by the first check that fails, in the order verb (405),
  credential (401), identifiers (400), store (500), and is 200 when none does; \<open>insert\<close> is
  called once when the first three pass and not at all otherwise.
\<close>

theorem checks_in_order:
  "status (fst (handler e req s)) =
     (if http_method req \<noteq> Some ''POST'' then 405
      else if authorization req \<noteq> Some (bearer (LOGGER_API_KEY e)) then 401
      else if \<not> (\<forall>f \<in> set required_fields. truthy (get_prop (body req) f)) then 400
      else case insert_row (store_fault e) (text_cast e) (conversation_events s) (event_row (now e) (body req)) of
             Inl err \<Rightarrow> 500
           | Inr t' \<Rightarrow> 200)
   \<and> insert_calls (snd (handler e req s)) =
     (if http_method req = Some ''POST'' \<and> authorization req = Some (bearer (LOGGER_API_KEY e))
         \<and> (\<forall>f \<in> set required_fields. truthy (get_prop (body req) f))
      then insert_calls s @ [event_row (now e) (body req)]
      else insert_calls s)"
proof (cases "http_method req = Some ''POST''")
  case False
  then show ?thesis by (simp add: handler_not_post reply_def)
next
  case post: True
  show ?thesis
  proof (cases "authorization req = Some (bearer (LOGGER_API_KEY e))")
    case False
    with post show ?thesis by (simp add: handler_unauthorized reply_def)
  next
    case auth: True
    show ?thesis
    proof (cases "\<forall>f \<in> set required_fields. truthy (get_prop (body req) f)")
      case False
      then have "\<not> truthy (body req) \<or> (\<exists>f \<in> set required_fields. \<not> truthy (get_prop (body req) f))"
        by blast
      from handler_invalid [OF post auth this, of s] post auth False
      show ?thesis by (simp add: reply_def)
    next
      case True
      from handler_insert [OF post auth True, of s] post auth True
      show ?thesis by (simp add: reply_def split: sum.splits)
    qed
  qed
qed

text \<open>
  A DELETE with no credential and no body gets 405, a POST with a wrong credential and an
  empty body 401, a POST with the right credential and an empty \<open>merchant_id\<close> 400
  without an insert, and the event \<open>m1\<close> 200 with one.
\<close>

theorem checks_in_order_witness:
  "status (fst (handler env0 delete_wrong_empty server0)) = 405
   \<and> status (fst (handler env0 post_wrong_empty server0)) = 401
   \<and> status (fst (handler env0 post_no_merchant server0)) = 400
   \<and> insert_calls (snd (handler env0 post_no_merchant server0)) = []
   \<and> status (fst (handler env0 post_m1 server0)) = 200
   \<and> insert_calls (snd (handler env0 post_m1 server0)) = [event_row (now env0) event_m1]"
proof -
  have a: "status (fst (handler env0 delete_wrong_empty server0)) = 405"
    using checks_in_order [of env0 delete_wrong_empty server0]
    by (simp add: delete_wrong_empty_def)
  have b: "status (fst (handler env0 post_wrong_empty server0)) = 401"
    using checks_in_order [of env0 post_wrong_empty server0]
    by (simp add: post_wrong_empty_def env0_def bearer_def)
  have c: "status (fst (handler env0 post_no_merchant server0)) = 400
      \<and> insert_calls (snd (handler env0 post_no_merchant server0)) = []"
    using checks_in_order [of env0 post_no_merchant server0]
    by (simp add: post_no_merchant_def env0_def bearer_def required_fields_def server0_def)
  have acc: "insert_row (store_fault env0) (text_cast env0) (conversation_events server0) (event_row (now env0) (body post_m1))
      = Inr (conversation_events server0 @ [event_row (now env0) (body post_m1)])"
    unfolding env0_def env.simps
    by (rule valid_event_accepted)
       (simp_all add: post_m1_def event_m1_def required_fields_def check_in_def directions_def
          sources_def server0_def)
  have d: "status (fst (handler env0 post_m1 server0)) = 200
      \<and> insert_calls (snd (handler env0 post_m1 server0)) = [event_row (now env0) event_m1]"
    using checks_in_order [of env0 post_m1 server0] acc
    by (simp add: post_m1_def env0_def bearer_def required_fields_def server0_def event_m1_def)
  from a b c d show ?thesis by simp
qed

text \<open>
  C10. The health probe answers every request, whatever its verb, header and body, with
  200 and the same three-field payload, and leaves the server state as it was.
\<close>

theorem health_probe_static:
  "handler_health req s =
     (\<lparr>status = 200, json = JObj [
         (''service'', JStr ''AeroChat Conversation Logger''),
         (''status'', JStr ''running''),
         (''endpoint'', JStr ''POST /api/log-event'')]\<rparr>, s)
   \<and> handler_health (req\<lparr>http_method := m, authorization := a, body := b\<rparr>) s = handler_health req s"
  by (simp add: handler_health_def reply_def)

subsection \<open>Dispatcher\<close>

text \<open>
  C7. When the delivery fails (a status other than 200, or an exception of class
  \<open>Exception\<close>: timeout, connection failure, serialisation error), the coroutine ends
  without an exception, \<open>fire_log\<close> raises nothing to its caller, and a warning has been
  logged. With the endpoint and the secret configured, the coroutine's effects are exactly
  the POST followed by the warning of that failure (the status received, the timeout, or
  the exception that was raised); under a running loop they all happen in the detached
  task, with none before \<open>fire_log\<close> returns. When the endpoint or the secret is not
  configured, \<open>fire_log\<close> raises nothing and its only effect is the warning that the
  logger is not configured: no POST is made.
\<close>

theorem fire_log_absorbs_failures:
  "(delivery_failure net \<longrightarrow>
      raised (fire_log cfg loop net d) = None
      \<and> snd (log_event cfg net d) = None
      \<and> (\<exists>w. LogWarning w \<in> set (before_return (fire_log cfg loop net d) @ detached (fire_log cfg loop net d))))
   \<and> (LOGGER_ENDPOINT cfg = Some url \<and> url \<noteq> [] \<and> LOGGER_API_KEY_py cfg = Some key \<and> key \<noteq> []
        \<and> delivery_failure net \<longrightarrow>
      log_event cfg net d =
        ([HttpPost url (''Bearer '' @ key) d net,
          LogWarning (case net of
                        Response status_code \<Rightarrow> ReceivedStatus status_code
                      | Raises ex \<Rightarrow> if isinstance_TimeoutException ex then TimedOut else Failed ex)],
         None)
      \<and> before_return (fire_log cfg loop net d) @ detached (fire_log cfg loop net d)
          = fst (log_event cfg net d)
      \<and> (loop = Running \<longrightarrow> before_return (fire_log cfg loop net d) = [])
      \<and> (loop = NoLoop \<longrightarrow> detached (fire_log cfg loop net d) = []))
   \<and> (py_not (LOGGER_ENDPOINT cfg) \<or> py_not (LOGGER_API_KEY_py cfg) \<longrightarrow>
      raised (fire_log cfg loop net d) = None
      \<and> before_return (fire_log cfg loop net d) @ detached (fire_log cfg loop net d) = [LogWarning NotConfigured])"
proof (intro conjI impI)
  assume f: "delivery_failure net"
  from log_event_catches [OF f, of cfg d]
  have c: "snd (log_event cfg net d) = None"
    and w: "\<exists>w. LogWarning w \<in> set (fst (log_event cfg net d))"
    by simp_all
  show "snd (log_event cfg net d) = None" by (rule c)
  show "raised (fire_log cfg loop net d) = None"
    by (simp add: fire_log_raised c split: loop_state.splits)
  show "\<exists>w. LogWarning w \<in> set (before_return (fire_log cfg loop net d) @ detached (fire_log cfg loop net d))"
    unfolding fire_log_effects by (rule w)
next
  assume a: "LOGGER_ENDPOINT cfg = Some url \<and> url \<noteq> [] \<and> LOGGER_API_KEY_py cfg = Some key \<and> key \<noteq> []
        \<and> delivery_failure net"
  then have conf: "LOGGER_ENDPOINT cfg = Some url" "url \<noteq> []"
      "LOGGER_API_KEY_py cfg = Some key" "key \<noteq> []"
    and f: "delivery_failure net"
    by simp_all
  show "log_event cfg net d =
        ([HttpPost url (''Bearer '' @ key) d net,
          LogWarning (case net of
                        Response status_code \<Rightarrow> ReceivedStatus status_code
                      | Raises ex \<Rightarrow> if isinstance_TimeoutException ex then TimedOut else Failed ex)],
         None)"
    using f unfolding log_event_configured [OF conf]
    by (cases net) simp_all
  show "before_return (fire_log cfg loop net d) @ detached (fire_log cfg loop net d)
          = fst (log_event cfg net d)"
    by (rule fire_log_effects)
  show "before_return (fire_log cfg loop net d) = []" if "loop = Running"
    using that by (simp add: fire_log_running)
  show "detached (fire_log cfg loop net d) = []" if "loop = NoLoop"
    using that by (simp add: fire_log_no_loop)
next
  assume n: "py_not (LOGGER_ENDPOINT cfg) \<or> py_not (LOGGER_API_KEY_py cfg)"
  show "raised (fire_log cfg loop net d) = None"
    by (simp add: fire_log_raised log_event_not_configured [OF n] split: loop_state.splits)
  show "before_return (fire_log cfg loop net d) @ detached (fire_log cfg loop net d) = [LogWarning NotConfigured]"
    unfolding fire_log_effects by (simp add: log_event_not_configured [OF n])
qed

text \<open>
  The four failure modes with the endpoint configured, each with the POST and its own
  warning, in the detached task under a running loop; and the call with no secret set.
\<close>

theorem fire_log_absorbs_failures_witness:
  "LOGGER_ENDPOINT cfg0 = Some url0 \<and> url0 \<noteq> []
   \<and> LOGGER_API_KEY_py cfg0 = Some ''s3cret''
   \<and> delivery_failure (Raises ConnectError) \<and> delivery_failure (Raises TimeoutException)
   \<and> delivery_failure (Raises TypeError) \<and> delivery_failure (Response 500)
   \<and> raised (fire_log cfg0 Running (Raises ConnectError) event_m1) = None
   \<and> before_return (fire_log cfg0 Running (Raises ConnectError) event_m1) = []
   \<and> detached (fire_log cfg0 Running (Raises ConnectError) event_m1) =
       [HttpPost url0 ''Bearer s3cret'' event_m1 (Raises ConnectError), LogWarning (Failed ConnectError)]
   \<and> raised (fire_log cfg0 Running (Raises TimeoutException) event_m1) = None
   \<and> detached (fire_log cfg0 Running (Raises TimeoutException) event_m1) =
       [HttpPost url0 ''Bearer s3cret'' event_m1 (Raises TimeoutException), LogWarning TimedOut]
   \<and> raised (fire_log cfg0 Running (Raises TypeError) event_m1) = None
   \<and> detached (fire_log cfg0 Running (Raises TypeError) event_m1) =
       [HttpPost url0 ''Bearer s3cret'' event_m1 (Raises TypeError), LogWarning (Failed TypeError)]
   \<and> raised (fire_log cfg0 Running (Response 500) event_m1) = None
   \<and> detached (fire_log cfg0 Running (Response 500) event_m1) =
       [HttpPost url0 ''Bearer s3cret'' event_m1 (Response 500), LogWarning (ReceivedStatus 500)]
   \<and> raised (fire_log cfg0 NoLoop (Raises ConnectError) event_m1) = None
   \<and> py_not (LOGGER_API_KEY_py cfg_unset)
   \<and> raised (fire_log cfg_unset NoLoop (Response 200) event_m1) = None
   \<and> before_return (fire_log cfg_unset NoLoop (Response 200) event_m1) = [LogWarning NotConfigured]"
proof -
  have c: "LOGGER_ENDPOINT cfg0 = Some url0" "url0 \<noteq> []"
      "LOGGER_API_KEY_py cfg0 = Some ''s3cret''" "''s3cret'' \<noteq> []"
    by (simp_all add: cfg0_def url0_def)
  have m: "delivery_failure (Raises ConnectError)" "delivery_failure (Raises TimeoutException)"
      "delivery_failure (Raises TypeError)" "delivery_failure (Response 500)"
    by simp_all
  have u: "py_not (LOGGER_API_KEY_py cfg_unset)" by (simp add: cfg_unset_def)
  have d: "detached (fire_log cfg_unset NoLoop (Response 200) event_m1) = []"
    by (simp add: fire_log_no_loop)
  note t = fire_log_absorbs_failures [where cfg = cfg0 and url = url0 and key = "''s3cret''"
      and d = event_m1]
  from t [of "Raises ConnectError" Running] c m
  have 1: "raised (fire_log cfg0 Running (Raises ConnectError) event_m1) = None
      \<and> before_return (fire_log cfg0 Running (Raises ConnectError) event_m1) = []
      \<and> detached (fire_log cfg0 Running (Raises ConnectError) event_m1) =
          [HttpPost url0 ''Bearer s3cret'' event_m1 (Raises ConnectError), LogWarning (Failed ConnectError)]"
    by auto
  from t [of "Raises TimeoutException" Running] c m
  have 2: "raised (fire_log cfg0 Running (Raises TimeoutException) event_m1) = None
      \<and> detached (fire_log cfg0 Running (Raises TimeoutException) event_m1) =
          [HttpPost url0 ''Bearer s3cret'' event_m1 (Raises TimeoutException), LogWarning TimedOut]"
    by auto
  from t [of "Raises TypeError" Running] c m
  have 3: "raised (fire_log cfg0 Running (Raises TypeError) event_m1) = None
      \<and> detached (fire_log cfg0 Running (Raises TypeError) event_m1) =
          [HttpPost url0 ''Bearer s3cret'' event_m1 (Raises TypeError), LogWarning (Failed TypeError)]"
    by auto
  from t [of "Response 500" Running] c m
  have 4: "raised (fire_log cfg0 Running (Response 500) event_m1) = None
      \<and> detached (fire_log cfg0 Running (Response 500) event_m1) =
          [HttpPost url0 ''Bearer s3cret'' event_m1 (Response 500), LogWarning (ReceivedStatus 500)]"
    by auto
  from t [of "Raises ConnectError" NoLoop] m
  have 5: "raised (fire_log cfg0 NoLoop (Raises ConnectError) event_m1) = None"
    by simp
  from fire_log_absorbs_failures [of "Response 200" cfg_unset NoLoop event_m1] u d
  have 6: "raised (fire_log cfg_unset NoLoop (Response 200) event_m1) = None
      \<and> before_return (fire_log cfg_unset NoLoop (Response 200) event_m1) = [LogWarning NotConfigured]"
    by simp
  from c(1-3) m 1 2 3 4 5 6 u show ?thesis by simp
qed

text \<open>
  C8 does not hold when no event loop is running. Called from synchronous code with the
  endpoint timing out, \<open>fire_log\<close> has made the POST and logged the timeout by the time it
  returns, and leaves nothing detached: \<open>asyncio.run\<close> runs the coroutine to its end. With
  a running loop, nothing has happened when it returns.
\<close>

theorem fire_log_blocks_without_loop:
  "before_return (fire_log cfg0 NoLoop (Raises TimeoutException) event_m1) =
     [HttpPost ''https://logger.example/api/log-event'' ''Bearer s3cret'' event_m1 (Raises TimeoutException),
      LogWarning TimedOut]
   \<and> detached (fire_log cfg0 NoLoop (Raises TimeoutException) event_m1) = []
   \<and> before_return (fire_log cfg0 Running (Raises TimeoutException) event_m1) = []"
  by (simp add: fire_log_def log_event_def cfg0_def url0_def)

end
